theory Spec2Isabelle
  imports Main "HOL-Library.Sublist"
begin

section \<open>Text\<close>

text \<open>
  A Python \<open>str\<close> is a sequence of Unicode code points; iterating over it yields
  one-character strings. A character is modelled by its code point, a string by the
  list of its code points.
\<close>

type_synonym codepoint = nat
type_synonym ustr = "codepoint list"

subsection \<open>Slices\<close>

text \<open>
  Python's \<open>xs[start:stop]\<close> with step 1: a negative bound counts from the end, and
  every bound is clamped to the range of the list. An omitted bound is \<open>None\<close>.
\<close>

definition slice_bound :: "nat \<Rightarrow> int \<Rightarrow> nat" where
  "slice_bound n i = (if i < 0 then nat (max 0 (int n + i)) else min n (nat i))"

definition slice :: "'a list \<Rightarrow> int option \<Rightarrow> int option \<Rightarrow> 'a list" where
  "slice xs start stop =
     (let n = length xs;
          lo = (case start of None \<Rightarrow> 0 | Some i \<Rightarrow> slice_bound n i);
          hi = (case stop of None \<Rightarrow> n | Some j \<Rightarrow> slice_bound n j)
      in take (hi - lo) (drop lo xs))"

section \<open>waniwords\_utility: constants\<close>

text \<open>\<open>KANA_LIST\<close>, in the order of the source; each entry is a one-character string.\<close>

definition KANA_LIST :: "ustr list" where
  "KANA_LIST =
    [[0x3041], [0x3042], [0x3043], [0x3044], [0x3045], [0x3046], [0x3094], [0x3047], [0x3048], [0x3049], [0x304A], [0x3095], [0x304B], [0x304C], [0x304D], [0x304E], [0x304F], [0x3050], [0x3096], [0x3051], [0x3052],
     [0x3053], [0x3054], [0x3055], [0x3056], [0x3057], [0x3058], [0x3059], [0x305A], [0x305B], [0x305C], [0x305D], [0x305E], [0x305F], [0x3060], [0x3061], [0x3062], [0x3063], [0x3064], [0x3065], [0x3066], [0x3067],
     [0x3068], [0x3069], [0x306A], [0x306B], [0x306C], [0x306D], [0x306E], [0x306F], [0x3070], [0x3071], [0x3072], [0x3073], [0x3074], [0x3075], [0x3076], [0x3077], [0x3078], [0x3079], [0x307A], [0x307B], [0x307C],
     [0x307D], [0x307E], [0x307F], [0x3080], [0x3081], [0x3082], [0x3083], [0x3084], [0x3085], [0x3086], [0x3087], [0x3088], [0x3089], [0x308A], [0x308B], [0x308C], [0x308D], [0x308E], [0x308F], [0x3090], [0x3091],
     [0x3092], [0x3093], [0x30A1], [0x30A2], [0x30A3], [0x30A4], [0x30A5], [0x30A6], [0x30F4], [0x30A7], [0x30A8], [0x30A9], [0x30AA], [0x30F5], [0x30AB], [0x30AC], [0x30AD], [0x30AE], [0x30AF], [0x30B0], [0x30F6],
     [0x30B1], [0x30B2], [0x30B3], [0x30B4], [0x30B5], [0x30B6], [0x30B7], [0x30B8], [0x30B9], [0x30BA], [0x30BB], [0x30BC], [0x30BD], [0x30BE], [0x30BF], [0x30C0], [0x30C1], [0x30C2], [0x30C3], [0x30C4], [0x30C5],
     [0x30C6], [0x30C7], [0x30C8], [0x30C9], [0x30CA], [0x30CB], [0x30CC], [0x30CD], [0x30CE], [0x30CF], [0x30D0], [0x30D1], [0x30D2], [0x30D3], [0x30D4], [0x30D5], [0x30D6], [0x30D7], [0x30D9], [0x30DA], [0x30DB],
     [0x30DC], [0x30DD], [0x30DE], [0x30DF], [0x30E0], [0x30E1], [0x30E2], [0x30E3], [0x30E4], [0x30E5], [0x30E6], [0x30E7], [0x30E8], [0x30E9], [0x30EA], [0x30EB], [0x30EC], [0x30ED], [0x30EE], [0x30EF], [0x30F7],
     [0x30F0], [0x30F8], [0x30F1], [0x30F9], [0x30F2], [0x30FA], [0x30F3], [0x30FB], [0x30FC]]"

section \<open>wanikani: the handler's data\<close>

text \<open>
  \<open>self._data_dictionary\<close> holds up to four entries, each a dictionary keyed by subject
  id. A cache that was never filled has none of them, so each entry is optional. The
  assignment dictionaries are iterated in insertion order and are kept as association
  lists (subject id, SRS stage); the subject catalogues are only looked up.
\<close>

record 'k data_dictionary =
  user_kanji_assignments :: "('k \<times> nat) list option"
  all_kanji_subjects :: "('k \<rightharpoonup> ustr) option"
  user_vocabulary_assignments :: "('k \<times> nat) list option"
  all_vocabulary_subjects :: "('k \<rightharpoonup> ustr) option"

text \<open>A failed dictionary lookup raises \<open>KeyError\<close> with the missing key.\<close>

datatype 'k lookup_error = KeyError_entry string | KeyError_id 'k

text \<open>
  The body of \<open>for lesson_id in assignments: result.append(catalogue[lesson_id])\<close>.
  The catalogue entry of the data dictionary is looked up anew in every iteration, so
  a missing catalogue is only noticed when there is an id to look up.
\<close>

fun append_subjects ::
  "string \<Rightarrow> ('k \<rightharpoonup> ustr) option \<Rightarrow> 'k list \<Rightarrow> ustr list \<Rightarrow> 'k lookup_error + ustr list" where
  "append_subjects name cat [] acc = Inr acc"
| "append_subjects name cat (lesson_id # ids) acc =
     (case cat of
        None \<Rightarrow> Inl (KeyError_entry name)
      | Some subjects \<Rightarrow>
          (case subjects lesson_id of
             None \<Rightarrow> Inl (KeyError_id lesson_id)
           | Some s \<Rightarrow> append_subjects name cat ids (acc @ [s])))"

definition get_known_kanji_list :: "'k data_dictionary \<Rightarrow> 'k lookup_error + ustr list" where
  "get_known_kanji_list d =
     (case user_kanji_assignments d of
        None \<Rightarrow> Inl (KeyError_entry ''user_kanji_assignments'')
      | Some assignments \<Rightarrow>
          append_subjects ''all_kanji_subjects'' (all_kanji_subjects d) (map fst assignments) [])"

definition get_known_vocabulary_list :: "'k data_dictionary \<Rightarrow> 'k lookup_error + ustr list" where
  "get_known_vocabulary_list d =
     (case user_vocabulary_assignments d of
        None \<Rightarrow> Inl (KeyError_entry ''user_vocabulary_assignments'')
      | Some assignments \<Rightarrow>
          append_subjects ''all_vocabulary_subjects'' (all_vocabulary_subjects d)
            (map fst assignments) [])"

section \<open>wanikani: the word filters\<close>

text \<open>
  \<open>filter_out_known_words\<close>: one loop, the test is
  \<open>bool(word not in known_vocabulary) ^ invert_filter\<close>.
\<close>

fun known_words_loop :: "ustr list \<Rightarrow> bool \<Rightarrow> ustr list \<Rightarrow> ustr list \<Rightarrow> ustr list" where
  "known_words_loop known invert_filter [] new_list = new_list"
| "known_words_loop known invert_filter (word # ws) new_list =
     (if (word \<notin> set known) \<noteq> invert_filter
      then known_words_loop known invert_filter ws (new_list @ [word])
      else known_words_loop known invert_filter ws new_list)"

definition filter_out_known_words ::
  "'k data_dictionary \<Rightarrow> ustr list \<Rightarrow> bool \<Rightarrow> 'k lookup_error + ustr list" where
  "filter_out_known_words d list_of_words invert_filter =
     (case get_known_vocabulary_list d of
        Inl e \<Rightarrow> Inl e
      | Inr known_vocabulary \<Rightarrow>
          Inr (known_words_loop known_vocabulary invert_filter list_of_words []))"

text \<open>
  The inner loop \<open>for character in word: if character not in known_characters: break\<close>.
  The value says whether the loop ran to its end, which is when Python runs the
  \<open>else\<close> clause of the \<open>for\<close>. A character is a one-character string and is
  compared with the strings of the list.
\<close>

fun characters_loop :: "ustr list \<Rightarrow> ustr \<Rightarrow> bool" where
  "characters_loop known_characters [] = True"
| "characters_loop known_characters (character # cs) =
     (if [character] \<notin> set known_characters then False
      else characters_loop known_characters cs)"

text \<open>
  The two outer loops, which both character filters contain. In the first, the
  \<open>else\<close> clause appends the word. In the second, the \<open>else\<close> clause continues with the
  next word and the append follows the inner loop, so it is reached after a
  \<open>break\<close> only.
\<close>

fun append_in_else_loop :: "ustr list \<Rightarrow> ustr list \<Rightarrow> ustr list \<Rightarrow> ustr list" where
  "append_in_else_loop known_characters [] new_list = new_list"
| "append_in_else_loop known_characters (word # ws) new_list =
     (if characters_loop known_characters word
      then append_in_else_loop known_characters ws (new_list @ [word])
      else append_in_else_loop known_characters ws new_list)"

fun continue_in_else_loop :: "ustr list \<Rightarrow> ustr list \<Rightarrow> ustr list \<Rightarrow> ustr list" where
  "continue_in_else_loop known_characters [] new_list = new_list"
| "continue_in_else_loop known_characters (word # ws) new_list =
     (if characters_loop known_characters word
      then continue_in_else_loop known_characters ws new_list
      else continue_in_else_loop known_characters ws (new_list @ [word]))"

definition filter_out_unknown_kanji ::
  "'k data_dictionary \<Rightarrow> ustr list \<Rightarrow> bool \<Rightarrow> 'k lookup_error + ustr list" where
  "filter_out_unknown_kanji d list_of_words invert_filter =
     (case get_known_kanji_list d of
        Inl e \<Rightarrow> Inl e
      | Inr known_kanji \<Rightarrow>
          (let known_characters = KANA_LIST @ known_kanji
           in if \<not> invert_filter
              then Inr (append_in_else_loop known_characters list_of_words [])
              else Inr (continue_in_else_loop known_characters list_of_words [])))"

definition filter_out_kana_words :: "ustr list \<Rightarrow> bool \<Rightarrow> ustr list" where
  "filter_out_kana_words list_of_words invert_filter =
     (let known_characters = KANA_LIST
      in if \<not> invert_filter
         then continue_in_else_loop known_characters list_of_words []
         else append_in_else_loop known_characters list_of_words [])"

section \<open>waniwords\_utility: reading the corpus files\<close>

text \<open>
  The lists of the module. The four word types of the NLT blacklist, the word type of
  the BCCWJ blacklist, and the six one-character symbols.
\<close>

definition NLT_BLACKLISTED_WORD_TYPES :: "ustr list" where
  "NLT_BLACKLISTED_WORD_TYPES =
    [[0x52A9, 0x8A5E], [0x52A9, 0x52D5, 0x8A5E], [0x52D5, 0x8A5E, 0x2D, 0x63A5, 0x5C3E],
     [0x8A18, 0x53F7]]"

definition BCCWJ_BLACKLISTED_WORD_TYPES :: "ustr list" where
  "BCCWJ_BLACKLISTED_WORD_TYPES = [[0x63A5, 0x5C3E, 0x8F9E]]"

definition BLACKLISTED_SYMBOLS :: "ustr list" where
  "BLACKLISTED_SYMBOLS = [[0x2A], [0xFF05], [0xFF4D], [0xFF47], [0x38], [0x3010]]"

text \<open>\<open>s.split(sep)\<close> for a one-character separator: the pieces between the separators.\<close>

fun split_loop :: "codepoint \<Rightarrow> ustr \<Rightarrow> ustr \<Rightarrow> ustr list" where
  "split_loop sep piece [] = [piece]"
| "split_loop sep piece (c # cs) =
     (if c = sep then piece # split_loop sep [] cs else split_loop sep (piece @ [c]) cs)"

definition split_str :: "ustr \<Rightarrow> codepoint \<Rightarrow> ustr list" where
  "split_str s sep = split_loop sep [] s"

text \<open>
  \<open>s.strip()\<close> removes the white space at both ends; the characters that Python's
  \<open>str\<close> counts as white space are these.
\<close>

definition is_whitespace :: "codepoint \<Rightarrow> bool" where
  "is_whitespace c =
     ((0x09 \<le> c \<and> c \<le> 0x0D) \<or> (0x1C \<le> c \<and> c \<le> 0x20) \<or> c = 0x85 \<or> c = 0xA0 \<or>
      c = 0x1680 \<or> (0x2000 \<le> c \<and> c \<le> 0x200A) \<or> c = 0x2028 \<or> c = 0x2029 \<or>
      c = 0x202F \<or> c = 0x205F \<or> c = 0x3000)"

definition strip :: "ustr \<Rightarrow> ustr" where
  "strip s = rev (dropWhile is_whitespace (rev (dropWhile is_whitespace s)))"

text \<open>\<open>sub in s\<close> on strings: \<open>sub\<close> occurs in \<open>s\<close> as a contiguous piece.\<close>

fun starts_with :: "ustr \<Rightarrow> ustr \<Rightarrow> bool" where
  "starts_with s [] = True"
| "starts_with [] (c # sub) = False"
| "starts_with (d # s) (c # sub) = (d = c \<and> starts_with s sub)"

fun str_contains :: "ustr \<Rightarrow> ustr \<Rightarrow> bool" where
  "str_contains [] sub = (sub = [])"
| "str_contains (d # s) sub = (starts_with (d # s) sub \<or> str_contains s sub)"

text \<open>\<open>data[i]\<close> for an index that is not negative raises \<open>IndexError\<close> out of range.\<close>

datatype parse_error = IndexError

definition item :: "'a list \<Rightarrow> nat \<Rightarrow> parse_error + 'a" where
  "item data i = (if i < length data then Inr (data ! i) else Inl IndexError)"

text \<open>
  The head of the NLT loop body: the line is split at commas and the first three fields
  are read as lemma, type and reading.
\<close>

definition nlt_fields :: "ustr \<Rightarrow> parse_error + (ustr \<times> ustr \<times> ustr)" where
  "nlt_fields line =
     (let data = split_str line 0x2C in
      case item data 0 of Inl e \<Rightarrow> Inl e | Inr d0 \<Rightarrow>
      (case item data 1 of Inl e \<Rightarrow> Inl e | Inr d1 \<Rightarrow>
      (case item data 2 of Inl e \<Rightarrow> Inl e | Inr d2 \<Rightarrow>
         Inr (strip d0, strip d1, strip d2))))"

text \<open>
  \<open>for symbol in _BLACKLISTED_SYMBOLS: if symbol in word_lemma: break\<close>; the value says
  whether the loop ran to its end (the \<open>else\<close> clause runs).
\<close>

fun symbols_loop :: "ustr list \<Rightarrow> ustr \<Rightarrow> bool" where
  "symbols_loop [] word_lemma = True"
| "symbols_loop (symbol # ss) word_lemma =
     (if str_contains word_lemma symbol then False else symbols_loop ss word_lemma)"

text \<open>
  The loop over the lines of the NLT file, with the number at which it stops as a
  parameter. \<open>continue\<close> skips the test of \<open>word_count\<close>; after a \<open>break\<close> of the symbol
  loop the test is made with the count unchanged.
\<close>

fun nlt_loop ::
  "nat \<Rightarrow> ustr list \<Rightarrow> nat \<Rightarrow> (ustr \<times> ustr) list \<Rightarrow> parse_error + (ustr \<times> ustr) list" where
  "nlt_loop cap [] word_count list_of_entries = Inr list_of_entries"
| "nlt_loop cap (line # rest) word_count list_of_entries =
     (case nlt_fields line of
        Inl e \<Rightarrow> Inl e
      | Inr (word_lemma, word_type, word_reading) \<Rightarrow>
          if word_type \<in> set NLT_BLACKLISTED_WORD_TYPES \<or> word_lemma = []
          then nlt_loop cap rest word_count list_of_entries
          else if symbols_loop BLACKLISTED_SYMBOLS word_lemma
          then (if word_count + 1 = cap
                then Inr (list_of_entries @ [(word_lemma, word_reading)])
                else nlt_loop cap rest (word_count + 1)
                       (list_of_entries @ [(word_lemma, word_reading)]))
          else (if word_count = cap then Inr list_of_entries
                else nlt_loop cap rest word_count list_of_entries))"

definition nlt_list_of_entries :: "ustr list \<Rightarrow> parse_error + (ustr \<times> ustr) list" where
  "nlt_list_of_entries nlt_lines = nlt_loop 51000 nlt_lines 0 []"

text \<open>
  The BCCWJ file is split at tabs; lemma, type and reading are the fields 2, 3 and 1,
  read in this order.
\<close>

definition bccwj_fields :: "ustr \<Rightarrow> parse_error + (ustr \<times> ustr \<times> ustr)" where
  "bccwj_fields line =
     (let data = split_str line 0x09 in
      case item data 2 of Inl e \<Rightarrow> Inl e | Inr d2 \<Rightarrow>
      (case item data 3 of Inl e \<Rightarrow> Inl e | Inr d3 \<Rightarrow>
      (case item data 1 of Inl e \<Rightarrow> Inl e | Inr d1 \<Rightarrow>
         Inr (strip d2, strip d3, strip d1))))"

text \<open>
  \<open>for blacklisted_type in _BCCWJ_BLACKLISTED_WORD_TYPES\<close>: the first type that occurs
  in the word type appends the entry and ends the loop.
\<close>

fun blacklisted_types_loop ::
  "ustr list \<Rightarrow> ustr \<Rightarrow> ustr \<times> ustr \<Rightarrow> (ustr \<times> ustr) list \<Rightarrow> (ustr \<times> ustr) list" where
  "blacklisted_types_loop [] word_type entry blacklisted = blacklisted"
| "blacklisted_types_loop (blacklisted_type # ts) word_type entry blacklisted =
     (if str_contains word_type blacklisted_type then blacklisted @ [entry]
      else blacklisted_types_loop ts word_type entry blacklisted)"

fun bccwj_loop ::
  "nat \<Rightarrow> ustr list \<Rightarrow> nat \<Rightarrow> (ustr \<times> ustr) list \<Rightarrow> parse_error + (ustr \<times> ustr) list" where
  "bccwj_loop cap [] word_count blacklisted = Inr blacklisted"
| "bccwj_loop cap (line # rest) word_count blacklisted =
     (case bccwj_fields line of
        Inl e \<Rightarrow> Inl e
      | Inr (word_lemma, word_type, word_reading) \<Rightarrow>
          (let blacklisted' =
                 blacklisted_types_loop BCCWJ_BLACKLISTED_WORD_TYPES word_type
                   (word_lemma, word_reading) blacklisted
           in if word_count + 1 = cap then Inr blacklisted'
              else bccwj_loop cap rest (word_count + 1) blacklisted'))"

definition bccwj_list_of_blacklisted_entries ::
  "ustr list \<Rightarrow> parse_error + (ustr \<times> ustr) list" where
  "bccwj_list_of_blacklisted_entries bccwj_lines = bccwj_loop 70000 bccwj_lines 0 []"

section \<open>waniwords\_utility: the list of words\<close>

text \<open>
  \<open>for blacklisted_entry in list_of_blacklisted_entries\<close>: a blacklisted entry with the
  lemma and the reading of the candidate ends the loop; the value says whether the loop
  ran to its end.
\<close>

fun blacklisted_entries_loop :: "(ustr \<times> ustr) list \<Rightarrow> ustr \<times> ustr \<Rightarrow> bool" where
  "blacklisted_entries_loop [] entry = True"
| "blacklisted_entries_loop (blacklisted_entry # bs) entry =
     (if fst entry = fst blacklisted_entry \<and> snd entry = snd blacklisted_entry then False
      else blacklisted_entries_loop bs entry)"

definition suru :: ustr where
  "suru = [0x3059, 0x308B]"

text \<open>
  \<open>if word_lemma != "suru" and word_lemma[-2:] == "suru": word_lemma = word_lemma[:-2]\<close>
  (with the two kana of the source for \<open>suru\<close>).
\<close>

definition remove_suru :: "ustr \<Rightarrow> ustr" where
  "remove_suru word_lemma =
     (if word_lemma \<noteq> suru \<and> slice word_lemma (Some (- 2)) None = suru
      then slice word_lemma None (Some (- 2)) else word_lemma)"

fun words_loop :: "(ustr \<times> ustr) list \<Rightarrow> (ustr \<times> ustr) list \<Rightarrow> ustr list \<Rightarrow> ustr list" where
  "words_loop blacklisted [] list_of_words = list_of_words"
| "words_loop blacklisted (entry # es) list_of_words =
     (if blacklisted_entries_loop blacklisted entry
      then (let word_lemma = remove_suru (fst entry)
            in if word_lemma \<notin> set list_of_words
               then words_loop blacklisted es (list_of_words @ [word_lemma])
               else words_loop blacklisted es list_of_words)
      else words_loop blacklisted es list_of_words)"

text \<open>
  The list of words that \<open>generate_frequency_list_file\<close> holds before it passes the
  list to the word recognition service: the three loops in sequence.
\<close>

definition list_of_words_of :: "ustr list \<Rightarrow> ustr list \<Rightarrow> parse_error + ustr list" where
  "list_of_words_of nlt_lines bccwj_lines =
     (case nlt_list_of_entries nlt_lines of
        Inl e \<Rightarrow> Inl e
      | Inr list_of_entries \<Rightarrow>
          (case bccwj_list_of_blacklisted_entries bccwj_lines of
             Inl e \<Rightarrow> Inl e
           | Inr list_of_blacklisted_entries \<Rightarrow>
               Inr (words_loop list_of_blacklisted_entries list_of_entries [])))"

section \<open>waniwords\_utility: reading the frequency list\<close>

text \<open>
  \<open>generate_frequent_words\<close> on the list loaded from the frequency list file; the
  requested number is a Python integer.
\<close>

definition generate_frequent_words :: "'a list \<Rightarrow> int \<Rightarrow> 'a list" where
  "generate_frequent_words words_list num_of_words =
     (if int (length words_list) < num_of_words then words_list
      else slice words_list (Some 0) (Some num_of_words))"

section \<open>The notions of the specification\<close>

text \<open>
  The specification speaks of characters that are kana: the Hiragana and the Katakana
  syllabaries with the middle dot and the prolonged sound mark. In Unicode these are
  the Hiragana letters U+3041 to U+3096, the Katakana letters U+30A1 to U+30FA, the
  middle dot U+30FB and the prolonged sound mark U+30FC. A word is fully known when
  every character is kana or in the set of known kanji, and kana only when every
  character is kana. These definitions follow the words of the specification and do
  not mention the table of the program; the theorems below compare them with the
  table and the loops of the program.
\<close>

definition is_kana :: "codepoint \<Rightarrow> bool" where
  "is_kana c = ((0x3041 \<le> c \<and> c \<le> 0x3096) \<or> (0x30A1 \<le> c \<and> c \<le> 0x30FC))"

definition fully_known :: "ustr set \<Rightarrow> ustr \<Rightarrow> bool" where
  "fully_known known_kanji_set word = (\<forall>c \<in> set word. is_kana c \<or> [c] \<in> known_kanji_set)"

definition kana_only :: "ustr \<Rightarrow> bool" where
  "kana_only word = (\<forall>c \<in> set word. is_kana c)"

text \<open>
  The test that the program makes on a word: every character of the word, as a
  one-character string, is in the list of known characters.
\<close>

definition all_characters_in :: "ustr list \<Rightarrow> ustr \<Rightarrow> bool" where
  "all_characters_in known_characters word = (\<forall>c \<in> set word. [c] \<in> set known_characters)"

text \<open>
  A primary entry survives the filters of the first scan when its type is not
  blacklisted, its lemma is not empty and its lemma contains no blacklisted symbol.
  The survivors of a sequence of well-formed lines are the (lemma, reading) pairs of
  the surviving entries, in order.
\<close>

definition nlt_survives :: "ustr \<times> ustr \<times> ustr \<Rightarrow> bool" where
  "nlt_survives e =
     (case e of (word_lemma, word_type, word_reading) \<Rightarrow>
        word_type \<notin> set NLT_BLACKLISTED_WORD_TYPES \<and> word_lemma \<noteq> [] \<and>
        (\<forall>symbol \<in> set BLACKLISTED_SYMBOLS. \<not> str_contains word_lemma symbol))"

definition lemma_reading :: "ustr \<times> ustr \<times> ustr \<Rightarrow> ustr \<times> ustr" where
  "lemma_reading e = (case e of (word_lemma, word_type, word_reading) \<Rightarrow> (word_lemma, word_reading))"

definition nlt_survivors :: "ustr list \<Rightarrow> (ustr \<times> ustr) list" where
  "nlt_survivors nlt_lines =
     map lemma_reading (filter nlt_survives (map (\<lambda>line. projr (nlt_fields line)) nlt_lines))"

text \<open>
  A secondary entry is recorded when its type contains a blacklisted type as a
  substring.
\<close>

definition bccwj_type_matches :: "ustr \<times> ustr \<times> ustr \<Rightarrow> bool" where
  "bccwj_type_matches e =
     (case e of (word_lemma, word_type, word_reading) \<Rightarrow>
        (\<exists>blacklisted_type \<in> set BCCWJ_BLACKLISTED_WORD_TYPES.
           str_contains word_type blacklisted_type))"

definition bccwj_matching :: "ustr list \<Rightarrow> (ustr \<times> ustr) list" where
  "bccwj_matching bccwj_lines =
     map lemma_reading
       (filter bccwj_type_matches (map (\<lambda>line. projr (bccwj_fields line)) bccwj_lines))"

text \<open>
  The scenario of the specification: the one known kanji U+98DF, the one known word
  U+98DF U+3079 U+308B, and the three words of the scenario.
\<close>

definition scenario_data :: "nat data_dictionary" where
  "scenario_data =
     \<lparr> user_kanji_assignments = Some [(1, 5)],
       all_kanji_subjects = Some [1 \<mapsto> [0x98DF]],
       user_vocabulary_assignments = Some [(2, 1)],
       all_vocabulary_subjects = Some [2 \<mapsto> [0x98DF, 0x3079, 0x308B]] \<rparr>"

definition scenario_words :: "ustr list" where
  "scenario_words = [[0x98DF, 0x3079, 0x308B], [0x98DF, 0x3079, 0x7269], [0x98F2, 0x3080]]"

text \<open>Data of a user who knows no kanji and no vocabulary.\<close>

definition no_kanji_data :: "nat data_dictionary" where
  "no_kanji_data =
     \<lparr> user_kanji_assignments = Some [],
       all_kanji_subjects = Some Map.empty,
       user_vocabulary_assignments = Some [],
       all_vocabulary_subjects = Some Map.empty \<rparr>"

text \<open>
  Data in which an assignment has no subject: the kanji assignment 3 and the vocabulary
  assignment 2 are missing from the catalogues.
\<close>

definition inconsistent_data :: "nat data_dictionary" where
  "inconsistent_data =
     \<lparr> user_kanji_assignments = Some [(1, 5), (3, 6)],
       all_kanji_subjects = Some [1 \<mapsto> [0x98DF]],
       user_vocabulary_assignments = Some [(2, 1), (4, 2)],
       all_vocabulary_subjects = Some [4 \<mapsto> [0x98DF, 0x3079, 0x308B]] \<rparr>"

text \<open>
  Example lines of the two corpus files. The NLT lines hold lemma, type and reading:
  U+52C9 U+5F37 U+3059 U+308B (a verb), U+72AC (a noun), U+52C9 U+5F37 (a noun) and
  U+7684 (a noun). The BCCWJ line holds rank, reading, lemma and type; its lemma is
  U+7684 and its type starts with the blacklisted type.
\<close>

definition example_nlt_lines :: "ustr list" where
  "example_nlt_lines =
     [[0x52C9, 0x5F37, 0x3059, 0x308B, 0x2C, 0x52D5, 0x8A5E, 0x2C,
       0x3079, 0x3093, 0x304D, 0x3087, 0x3046, 0x3059, 0x308B, 0x0A],
      [0x72AC, 0x2C, 0x540D, 0x8A5E, 0x2C, 0x3044, 0x306C, 0x0A],
      [0x52C9, 0x5F37, 0x2C, 0x540D, 0x8A5E, 0x2C, 0x3079, 0x3093, 0x304D, 0x3087, 0x3046, 0x0A],
      [0x7684, 0x2C, 0x540D, 0x8A5E, 0x2C, 0x30C6, 0x30AD, 0x0A]]"

definition example_bccwj_lines :: "ustr list" where
  "example_bccwj_lines =
     [[0x31, 0x09, 0x30C6, 0x30AD, 0x09, 0x7684, 0x09, 0x63A5, 0x5C3E, 0x8F9E, 0x2D,
       0x540D, 0x8A5E, 0x7684, 0x0A]]"

text \<open>
  Single lines: an NLT line of a particle (blacklisted type), an NLT line whose lemma is
  the blacklisted symbol 8, the NLT line of the noun U+72AC, the BCCWJ line of a suffix
  (blacklisted type), and the BCCWJ line of a noun.
\<close>

definition particle_nlt_line :: ustr where
  "particle_nlt_line = [0x306E, 0x2C, 0x52A9, 0x8A5E, 0x2C, 0x306E, 0x0A]"

definition symbol_nlt_line :: ustr where
  "symbol_nlt_line = [0x38, 0x2C, 0x540D, 0x8A5E, 0x2C, 0x306F, 0x3061, 0x0A]"

definition noun_nlt_line :: ustr where
  "noun_nlt_line = [0x72AC, 0x2C, 0x540D, 0x8A5E, 0x2C, 0x3044, 0x306C, 0x0A]"

definition suffix_bccwj_line :: ustr where
  "suffix_bccwj_line =
     [0x31, 0x09, 0x30C6, 0x30AD, 0x09, 0x7684, 0x09, 0x63A5, 0x5C3E, 0x8F9E, 0x2D,
      0x540D, 0x8A5E, 0x7684, 0x0A]"

definition noun_bccwj_line :: ustr where
  "noun_bccwj_line = [0x32, 0x09, 0x30A4, 0x30CC, 0x09, 0x72AC, 0x09, 0x540D, 0x8A5E, 0x0A]"

section \<open>The loops as filters\<close>

lemma characters_loop_iff:
  "characters_loop known word \<longleftrightarrow> (\<forall>c \<in> set word. [c] \<in> set known)"
  by (induction word) auto

lemma characters_loop_all: "characters_loop known = all_characters_in known"
  by (rule ext) (simp add: characters_loop_iff all_characters_in_def)

lemma known_words_loop_eq:
  "known_words_loop known iv ws acc = acc @ filter (\<lambda>w. (w \<notin> set known) \<noteq> iv) ws"
  by (induction ws arbitrary: acc) auto

lemma append_in_else_loop_eq:
  "append_in_else_loop known ws acc = acc @ filter (characters_loop known) ws"
  by (induction ws arbitrary: acc) auto

lemma continue_in_else_loop_eq:
  "continue_in_else_loop known ws acc = acc @ filter (\<lambda>w. \<not> characters_loop known w) ws"
  by (induction ws arbitrary: acc) auto

lemma filter_out_known_words_eq:
  "get_known_vocabulary_list d = Inr kv \<Longrightarrow>
   filter_out_known_words d ws iv = Inr (filter (\<lambda>w. (w \<notin> set kv) \<noteq> iv) ws)"
  by (simp add: filter_out_known_words_def known_words_loop_eq)

lemma filter_out_unknown_kanji_eq:
  "get_known_kanji_list d = Inr kk \<Longrightarrow>
   filter_out_unknown_kanji d ws iv =
     Inr (filter (\<lambda>w. all_characters_in (KANA_LIST @ kk) w \<noteq> iv) ws)"
  by (simp add: filter_out_unknown_kanji_def Let_def append_in_else_loop_eq
      continue_in_else_loop_eq characters_loop_all)

lemma filter_out_kana_words_eq:
  "filter_out_kana_words ws iv = filter (\<lambda>w. (\<not> all_characters_in KANA_LIST w) \<noteq> iv) ws"
  by (simp add: filter_out_kana_words_def Let_def append_in_else_loop_eq
      continue_in_else_loop_eq characters_loop_all)

lemma filter_complement:
  "set (filter (\<lambda>w. P w \<noteq> False) ws) \<inter> set (filter (\<lambda>w. P w \<noteq> True) ws) = {}"
  "set (filter (\<lambda>w. P w \<noteq> False) ws) \<union> set (filter (\<lambda>w. P w \<noteq> True) ws) = set ws"
  by auto

section \<open>The table of kana\<close>

text \<open>
  Every entry of \<open>KANA_LIST\<close> is a single kana, and every kana is an entry, with one
  exception: the Katakana letter U+30D8 is not in the table.
\<close>

lemma hiragana_in_KANA_LIST: "\<forall>c \<in> set [0x3041..<0x3097]. [c] \<in> set KANA_LIST"
  by (simp add: KANA_LIST_def)

lemma katakana_in_KANA_LIST:
  "\<forall>c \<in> set [0x30A1..<0x30FD]. c \<noteq> 0x30D8 \<longrightarrow> [c] \<in> set KANA_LIST"
  by (simp add: KANA_LIST_def)

lemma KANA_LIST_entries:
  "\<forall>s \<in> set KANA_LIST. \<exists>c. s = [c] \<and> is_kana c \<and> c \<noteq> 0x30D8"
  by (simp add: KANA_LIST_def is_kana_def)

lemma KANA_LIST_iff: "[c] \<in> set KANA_LIST \<longleftrightarrow> is_kana c \<and> c \<noteq> 0x30D8"
proof
  assume "[c] \<in> set KANA_LIST"
  with KANA_LIST_entries show "is_kana c \<and> c \<noteq> 0x30D8" by fastforce
next
  assume kana: "is_kana c \<and> c \<noteq> 0x30D8"
  then have "c \<in> set [0x3041..<0x3097] \<or> c \<in> set [0x30A1..<0x30FD]"
    unfolding is_kana_def set_upt by auto
  with kana hiragana_in_KANA_LIST katakana_in_KANA_LIST show "[c] \<in> set KANA_LIST"
    by blast
qed

lemma all_characters_in_fully_known:
  "0x30D8 \<notin> set word \<Longrightarrow>
   all_characters_in (KANA_LIST @ known_kanji) word = fully_known (set known_kanji) word"
  by (auto simp: all_characters_in_def fully_known_def KANA_LIST_iff)

lemma all_characters_in_kana_only:
  "0x30D8 \<notin> set word \<Longrightarrow> all_characters_in KANA_LIST word = kana_only word"
  by (auto simp: all_characters_in_def kana_only_def KANA_LIST_iff)

lemma filter_fully_known:
  assumes "\<forall>word \<in> set ws. 0x30D8 \<notin> set word"
  shows "filter (\<lambda>w. all_characters_in (KANA_LIST @ known_kanji) w \<noteq> iv) ws =
         filter (\<lambda>w. fully_known (set known_kanji) w \<noteq> iv) ws"
  using assms by (intro filter_cong refl) (simp add: all_characters_in_fully_known)

text \<open>
  The letter that the table lacks is kana, so a word of U+30D8 and U+30D3 is kana only
  and fully known for every set of known kanji; the program, with no known kanji, does
  not keep it as a word of known characters and keeps it as a word that is not kana
  only.
\<close>

lemma no_kanji_data_known_kanji: "get_known_kanji_list no_kanji_data = Inr []"
  by (simp add: get_known_kanji_list_def no_kanji_data_def)

lemma katakana_he_missing:
  "is_kana 0x30D8" "[0x30D8] \<notin> set KANA_LIST"
  "kana_only [0x30D8, 0x30D3]" "fully_known known_kanji_set [0x30D8, 0x30D3]"
  "filter_out_unknown_kanji no_kanji_data [[0x30D8, 0x30D3]] False = Inr []"
  "filter_out_kana_words [[0x30D8, 0x30D3]] False = [[0x30D8, 0x30D3]]"
  by (simp_all add: KANA_LIST_iff is_kana_def kana_only_def fully_known_def
      filter_out_unknown_kanji_eq [OF no_kanji_data_known_kanji] filter_out_kana_words_eq
      all_characters_in_def)

section \<open>The scenario\<close>

lemma scenario_known_kanji: "get_known_kanji_list scenario_data = Inr [[0x98DF]]"
  by (simp add: get_known_kanji_list_def scenario_data_def)

lemma scenario_known_vocabulary:
  "get_known_vocabulary_list scenario_data = Inr [[0x98DF, 0x3079, 0x308B]]"
  by (simp add: get_known_vocabulary_list_def scenario_data_def)

lemma scenario_kana:
  "[0x3079] \<in> set KANA_LIST" "[0x308B] \<in> set KANA_LIST" "[0x3080] \<in> set KANA_LIST"
  "[0x98DF] \<notin> set KANA_LIST" "[0x7269] \<notin> set KANA_LIST" "[0x98F2] \<notin> set KANA_LIST"
  by (simp_all add: KANA_LIST_def)

lemma scenario_unknown_kanji_False:
  "filter_out_unknown_kanji scenario_data scenario_words False = Inr [[0x98DF, 0x3079, 0x308B]]"
  by (simp add: filter_out_unknown_kanji_def scenario_known_kanji scenario_words_def
      scenario_kana)

lemma scenario_unknown_kanji_True:
  "filter_out_unknown_kanji scenario_data scenario_words True =
     Inr [[0x98DF, 0x3079, 0x7269], [0x98F2, 0x3080]]"
  by (simp add: filter_out_unknown_kanji_def scenario_known_kanji scenario_words_def
      scenario_kana)

lemma scenario_known_words:
  "filter_out_known_words scenario_data scenario_words iv =
     Inr (if iv then [[0x98DF, 0x3079, 0x308B]] else [[0x98DF, 0x3079, 0x7269], [0x98F2, 0x3080]])"
  by (simp add: filter_out_known_words_def scenario_known_vocabulary scenario_words_def)

lemma scenario_kana_words:
  "filter_out_kana_words scenario_words iv = (if iv then [] else scenario_words)"
  by (simp add: filter_out_kana_words_def scenario_words_def scenario_kana)

section \<open>Order preservation\<close>

text \<open>
  C7. For every word list, every known set and every value of the invert flag, the
  output of each of the three filters (known vocabulary, known characters, kana only)
  is a subsequence of the input word list: the kept words appear in their original
  relative order. The two filters that read the known set return a list whenever the
  known set can be derived.
\<close>

theorem filters_preserve_order:
  assumes "get_known_vocabulary_list d = Inr known_vocabulary"
    and "get_known_kanji_list d = Inr known_kanji"
  shows "(\<exists>r. filter_out_known_words d ws invert_filter = Inr r \<and> subseq r ws) \<and>
         (\<exists>r. filter_out_unknown_kanji d ws invert_filter = Inr r \<and> subseq r ws) \<and>
         subseq (filter_out_kana_words ws invert_filter) ws"
proof (intro conjI)
  show "\<exists>r. filter_out_known_words d ws invert_filter = Inr r \<and> subseq r ws"
    using assms(1) by (simp add: filter_out_known_words_eq)
  show "\<exists>r. filter_out_unknown_kanji d ws invert_filter = Inr r \<and> subseq r ws"
    using assms(2) by (simp add: filter_out_unknown_kanji_eq)
  show "subseq (filter_out_kana_words ws invert_filter) ws"
    by (simp add: filter_out_kana_words_eq)
qed

theorem filters_preserve_order_witness:
  "get_known_vocabulary_list scenario_data = Inr [[0x98DF, 0x3079, 0x308B]] \<and>
   get_known_kanji_list scenario_data = Inr [[0x98DF]] \<and>
   (\<exists>r. filter_out_known_words scenario_data scenario_words False = Inr r \<and>
        subseq r scenario_words) \<and>
   (\<exists>r. filter_out_unknown_kanji scenario_data scenario_words False = Inr r \<and>
        subseq r scenario_words) \<and>
   subseq (filter_out_kana_words scenario_words False) scenario_words"
  using filters_preserve_order [OF scenario_known_vocabulary scenario_known_kanji,
      of scenario_words False]
  by (simp add: scenario_known_vocabulary scenario_known_kanji)

section \<open>Invert is a complement\<close>

text \<open>
  C4. For every word list, every known set and each of the three filters (known
  vocabulary, known characters, kana only), the result with invert false and the
  result with invert true are disjoint as sets and their union is the set of the input
  words; each filter keeps a word exactly when its base predicate differs from the
  invert flag (exclusive or), so one pass with the flag flipped gives the complement.
  The base predicates are: the word is not in the known vocabulary; every character of
  the word is in the table of kana or in the list of known kanji; not every character
  of the word is in the table of kana.
\<close>

theorem invert_is_complement:
  assumes "get_known_vocabulary_list d = Inr known_vocabulary"
    and "get_known_kanji_list d = Inr known_kanji"
  shows "(\<exists>r0 r1. filter_out_known_words d ws False = Inr r0 \<and>
            filter_out_known_words d ws True = Inr r1 \<and>
            set r0 \<inter> set r1 = {} \<and> set r0 \<union> set r1 = set ws) \<and>
         (\<exists>r0 r1. filter_out_unknown_kanji d ws False = Inr r0 \<and>
            filter_out_unknown_kanji d ws True = Inr r1 \<and>
            set r0 \<inter> set r1 = {} \<and> set r0 \<union> set r1 = set ws) \<and>
         set (filter_out_kana_words ws False) \<inter> set (filter_out_kana_words ws True) = {} \<and>
         set (filter_out_kana_words ws False) \<union> set (filter_out_kana_words ws True) = set ws \<and>
         filter_out_known_words d ws invert_filter =
           Inr (filter (\<lambda>w. (w \<notin> set known_vocabulary) \<noteq> invert_filter) ws) \<and>
         filter_out_unknown_kanji d ws invert_filter =
           Inr (filter (\<lambda>w. all_characters_in (KANA_LIST @ known_kanji) w \<noteq> invert_filter)
             ws) \<and>
         filter_out_kana_words ws invert_filter =
           filter (\<lambda>w. (\<not> all_characters_in KANA_LIST w) \<noteq> invert_filter) ws"
proof (intro conjI)
  show "\<exists>r0 r1. filter_out_known_words d ws False = Inr r0 \<and>
          filter_out_known_words d ws True = Inr r1 \<and>
          set r0 \<inter> set r1 = {} \<and> set r0 \<union> set r1 = set ws"
    using assms(1) by (auto simp: filter_out_known_words_eq)
  show "\<exists>r0 r1. filter_out_unknown_kanji d ws False = Inr r0 \<and>
          filter_out_unknown_kanji d ws True = Inr r1 \<and>
          set r0 \<inter> set r1 = {} \<and> set r0 \<union> set r1 = set ws"
    using assms(2) by (auto simp: filter_out_unknown_kanji_eq)
  show "set (filter_out_kana_words ws False) \<inter> set (filter_out_kana_words ws True) = {}"
    unfolding filter_out_kana_words_eq by (rule filter_complement)
  show "set (filter_out_kana_words ws False) \<union> set (filter_out_kana_words ws True) = set ws"
    unfolding filter_out_kana_words_eq by (rule filter_complement)
  show "filter_out_known_words d ws invert_filter =
          Inr (filter (\<lambda>w. (w \<notin> set known_vocabulary) \<noteq> invert_filter) ws)"
    by (rule filter_out_known_words_eq [OF assms(1)])
  show "filter_out_unknown_kanji d ws invert_filter =
          Inr (filter (\<lambda>w. all_characters_in (KANA_LIST @ known_kanji) w \<noteq> invert_filter)
            ws)"
    by (rule filter_out_unknown_kanji_eq [OF assms(2)])
  show "filter_out_kana_words ws invert_filter =
          filter (\<lambda>w. (\<not> all_characters_in KANA_LIST w) \<noteq> invert_filter) ws"
    by (rule filter_out_kana_words_eq)
qed

theorem invert_is_complement_witness:
  "get_known_vocabulary_list scenario_data = Inr [[0x98DF, 0x3079, 0x308B]] \<and>
   get_known_kanji_list scenario_data = Inr [[0x98DF]] \<and>
   (\<exists>r0 r1. filter_out_known_words scenario_data scenario_words False = Inr r0 \<and>
      filter_out_known_words scenario_data scenario_words True = Inr r1 \<and>
      set r0 \<inter> set r1 = {} \<and> set r0 \<union> set r1 = set scenario_words) \<and>
   (\<exists>r0 r1. filter_out_unknown_kanji scenario_data scenario_words False = Inr r0 \<and>
      filter_out_unknown_kanji scenario_data scenario_words True = Inr r1 \<and>
      set r0 \<inter> set r1 = {} \<and> set r0 \<union> set r1 = set scenario_words) \<and>
   set (filter_out_kana_words scenario_words False) \<inter>
     set (filter_out_kana_words scenario_words True) = {} \<and>
   set (filter_out_kana_words scenario_words False) \<union>
     set (filter_out_kana_words scenario_words True) = set scenario_words"
  using scenario_known_vocabulary scenario_known_kanji
    invert_is_complement [OF scenario_known_vocabulary scenario_known_kanji,
      of scenario_words False]
  by blast

section \<open>What the known-character filter keeps\<close>

text \<open>
  C1, as stated: with invert false the known-character filter keeps the words that are
  not fully known, so that the scenario (known kanji U+98DF, three words) gives the
  second and the third word. The program gives the first word only.
\<close>

theorem known_character_filter_scenario_counterexample:
  "get_known_kanji_list scenario_data = Inr [[0x98DF]] \<and>
   scenario_words = [[0x98DF, 0x3079, 0x308B], [0x98DF, 0x3079, 0x7269], [0x98F2, 0x3080]] \<and>
   filter_out_unknown_kanji scenario_data scenario_words False \<noteq>
     Inr [[0x98DF, 0x3079, 0x7269], [0x98F2, 0x3080]]"
  by (simp add: scenario_known_kanji scenario_unknown_kanji_False)
    (simp add: scenario_words_def)

text \<open>
  C1, amended: for every set of known kanji and every word list whose words do not
  contain the Katakana letter U+30D8, the known-character filter with invert false
  keeps exactly the fully known words (every character is kana or a known kanji), and
  with invert true exactly the words that are not fully known; in the scenario, invert
  false gives the first word and invert true gives the second and the third.
\<close>

theorem known_character_filter_keeps:
  assumes "get_known_kanji_list d = Inr known_kanji"
    and "\<forall>word \<in> set ws. 0x30D8 \<notin> set word"
  shows "filter_out_unknown_kanji d ws False = Inr (filter (fully_known (set known_kanji)) ws) \<and>
         filter_out_unknown_kanji d ws True =
           Inr (filter (\<lambda>w. \<not> fully_known (set known_kanji) w) ws) \<and>
         filter_out_unknown_kanji scenario_data scenario_words False =
           Inr [[0x98DF, 0x3079, 0x308B]] \<and>
         filter_out_unknown_kanji scenario_data scenario_words True =
           Inr [[0x98DF, 0x3079, 0x7269], [0x98F2, 0x3080]]"
  using filter_out_unknown_kanji_eq [OF assms(1), of ws False]
    filter_out_unknown_kanji_eq [OF assms(1), of ws True]
    filter_fully_known [OF assms(2), of known_kanji False]
    filter_fully_known [OF assms(2), of known_kanji True]
  by (simp add: scenario_unknown_kanji_False scenario_unknown_kanji_True)

lemma scenario_words_without_he: "\<forall>word \<in> set scenario_words. 0x30D8 \<notin> set word"
  by (simp add: scenario_words_def)

theorem known_character_filter_keeps_witness:
  "get_known_kanji_list scenario_data = Inr [[0x98DF]] \<and>
   0x30D8 \<notin> set (concat scenario_words) \<and>
   filter_out_unknown_kanji scenario_data scenario_words False =
     Inr (filter (fully_known (set [[0x98DF]])) scenario_words) \<and>
   filter_out_unknown_kanji scenario_data scenario_words True =
     Inr (filter (\<lambda>w. \<not> fully_known (set [[0x98DF]]) w) scenario_words) \<and>
   filter (fully_known (set [[0x98DF]])) scenario_words = [[0x98DF, 0x3079, 0x308B]]"
proof -
  note keeps = known_character_filter_keeps [OF scenario_known_kanji scenario_words_without_he]
  note kept_False = conjunct1 [OF keeps]
  note kept_True = conjunct1 [OF conjunct2 [OF keeps]]
  note scenario_False = conjunct1 [OF conjunct2 [OF conjunct2 [OF keeps]]]
  have "Inr (filter (fully_known (set [[0x98DF]])) scenario_words) =
      (Inr [[0x98DF, 0x3079, 0x308B]] :: nat lookup_error + ustr list)"
    by (rule trans [OF sym [OF kept_False] scenario_False])
  then have kept_words:
    "filter (fully_known (set [[0x98DF]])) scenario_words = [[0x98DF, 0x3079, 0x308B]]"
    by (simp only: sum.inject)
  have without_he: "0x30D8 \<notin> set (concat scenario_words)"
    by (simp add: scenario_words_def)
  show ?thesis
    by (intro conjI)
      (rule scenario_known_kanji without_he kept_False kept_True kept_words)+
qed

section \<open>The empty word\<close>

text \<open>
  C10. The empty word passes every test made character by character: for every list of
  known characters the inner loop runs to its end on it. So for every set of known
  kanji the known-character filter takes the empty word as fully known (kept when
  invert is false, dropped when invert is true), and the kana-only filter takes it as
  kana only (dropped when invert is false, kept when invert is true).
\<close>

theorem empty_word_is_vacuously_known:
  assumes "get_known_kanji_list d = Inr known_kanji"
  shows "characters_loop known_characters [] \<and>
         fully_known (set known_kanji) [] \<and> kana_only [] \<and>
         filter_out_unknown_kanji d [[]] False = Inr [[]] \<and>
         filter_out_unknown_kanji d [[]] True = Inr [] \<and>
         filter_out_kana_words [[]] False = [] \<and>
         filter_out_kana_words [[]] True = [[]] \<and>
         (\<exists>r. filter_out_unknown_kanji d ws False = Inr r \<and> ([] \<in> set r \<longleftrightarrow> [] \<in> set ws)) \<and>
         (\<exists>r. filter_out_unknown_kanji d ws True = Inr r \<and> [] \<notin> set r) \<and>
         [] \<notin> set (filter_out_kana_words ws False) \<and>
         ([] \<in> set (filter_out_kana_words ws True) \<longleftrightarrow> [] \<in> set ws)"
proof -
  have fk: "fully_known (set known_kanji) []" by (simp add: fully_known_def)
  have ko: "kana_only []" by (simp add: kana_only_def)
  show ?thesis
    using fk ko
    by (simp add: filter_out_unknown_kanji_eq [OF assms] filter_out_kana_words_eq
        all_characters_in_def)
qed

theorem empty_word_is_vacuously_known_witness:
  "get_known_kanji_list scenario_data = Inr [[0x98DF]] \<and>
   filter_out_unknown_kanji scenario_data [[]] False = Inr [[]] \<and>
   filter_out_unknown_kanji scenario_data [[]] True = Inr [] \<and>
   filter_out_kana_words [[]] False = [] \<and>
   filter_out_kana_words [[]] True = [[]]"
  using empty_word_is_vacuously_known [OF scenario_known_kanji, of KANA_LIST "[[]]"]
  by (simp add: scenario_known_kanji)

section \<open>Deriving the known sets\<close>

lemma append_subjects_all_present:
  "\<forall>i \<in> set ids. i \<in> dom subjects \<Longrightarrow>
   append_subjects name (Some subjects) ids acc = Inr (acc @ map (\<lambda>i. the (subjects i)) ids)"
  by (induction ids arbitrary: acc) auto

lemma append_subjects_some_absent:
  "\<exists>i \<in> set ids. i \<notin> dom subjects \<Longrightarrow>
   \<exists>i \<in> set ids. i \<notin> dom subjects \<and>
     append_subjects name (Some subjects) ids acc = Inl (KeyError_id i)"
proof (induction ids arbitrary: acc)
  case Nil
  then show ?case by simp
next
  case (Cons j ids)
  show ?case
  proof (cases "subjects j")
    case None
    then show ?thesis by auto
  next
    case (Some s)
    with Cons.prems have "\<exists>i \<in> set ids. i \<notin> dom subjects" by auto
    from Cons.IH [OF this, of "acc @ [s]"] Some show ?thesis by auto
  qed
qed

text \<open>
  C9. In the derivation of the known sets (\<open>get_known_kanji_list\<close> and
  \<open>get_known_vocabulary_list\<close>): if every assignment id is present in the subject
  catalogue, the result is the list of the subject strings of the assignment ids, in
  order; if some assignment id is absent from the catalogue, the operation fails with
  the \<open>KeyError\<close> of an absent id, and returns no list, neither empty nor partial.
\<close>

theorem known_lists_project_or_fail:
  assumes "user_kanji_assignments d = Some kanji_assignments"
    and "all_kanji_subjects d = Some kanji_subjects"
    and "user_vocabulary_assignments d = Some vocabulary_assignments"
    and "all_vocabulary_subjects d = Some vocabulary_subjects"
  shows "((\<forall>i \<in> set (map fst kanji_assignments). i \<in> dom kanji_subjects) \<longrightarrow>
            get_known_kanji_list d =
              Inr (map (\<lambda>i. the (kanji_subjects i)) (map fst kanji_assignments))) \<and>
         ((\<exists>i \<in> set (map fst kanji_assignments). i \<notin> dom kanji_subjects) \<longrightarrow>
            (\<exists>i \<in> set (map fst kanji_assignments). i \<notin> dom kanji_subjects \<and>
               get_known_kanji_list d = Inl (KeyError_id i))) \<and>
         ((\<forall>i \<in> set (map fst vocabulary_assignments). i \<in> dom vocabulary_subjects) \<longrightarrow>
            get_known_vocabulary_list d =
              Inr (map (\<lambda>i. the (vocabulary_subjects i)) (map fst vocabulary_assignments))) \<and>
         ((\<exists>i \<in> set (map fst vocabulary_assignments). i \<notin> dom vocabulary_subjects) \<longrightarrow>
            (\<exists>i \<in> set (map fst vocabulary_assignments). i \<notin> dom vocabulary_subjects \<and>
               get_known_vocabulary_list d = Inl (KeyError_id i)))"
proof (intro conjI impI)
  assume "\<forall>i \<in> set (map fst kanji_assignments). i \<in> dom kanji_subjects"
  then show "get_known_kanji_list d =
      Inr (map (\<lambda>i. the (kanji_subjects i)) (map fst kanji_assignments))"
    using assms(1,2) append_subjects_all_present [of "map fst kanji_assignments" kanji_subjects]
    by (simp add: get_known_kanji_list_def)
next
  assume "\<exists>i \<in> set (map fst kanji_assignments). i \<notin> dom kanji_subjects"
  from append_subjects_some_absent [OF this, of "''all_kanji_subjects''" "[]"]
  show "\<exists>i \<in> set (map fst kanji_assignments). i \<notin> dom kanji_subjects \<and>
      get_known_kanji_list d = Inl (KeyError_id i)"
    using assms(1,2) by (simp add: get_known_kanji_list_def)
next
  assume "\<forall>i \<in> set (map fst vocabulary_assignments). i \<in> dom vocabulary_subjects"
  then show "get_known_vocabulary_list d =
      Inr (map (\<lambda>i. the (vocabulary_subjects i)) (map fst vocabulary_assignments))"
    using assms(3,4)
      append_subjects_all_present [of "map fst vocabulary_assignments" vocabulary_subjects]
    by (simp add: get_known_vocabulary_list_def)
next
  assume "\<exists>i \<in> set (map fst vocabulary_assignments). i \<notin> dom vocabulary_subjects"
  from append_subjects_some_absent [OF this, of "''all_vocabulary_subjects''" "[]"]
  show "\<exists>i \<in> set (map fst vocabulary_assignments). i \<notin> dom vocabulary_subjects \<and>
      get_known_vocabulary_list d = Inl (KeyError_id i)"
    using assms(3,4) by (simp add: get_known_vocabulary_list_def)
qed

lemma inconsistent_data_fields:
  "user_kanji_assignments inconsistent_data = Some [(1, 5), (3, 6)]"
  "all_kanji_subjects inconsistent_data = Some [1 \<mapsto> [0x98DF]]"
  "user_vocabulary_assignments inconsistent_data = Some [(2, 1), (4, 2)]"
  "all_vocabulary_subjects inconsistent_data = Some [4 \<mapsto> [0x98DF, 0x3079, 0x308B]]"
  by (simp_all add: inconsistent_data_def)

lemma scenario_data_fields:
  "user_kanji_assignments scenario_data = Some [(1, 5)]"
  "all_kanji_subjects scenario_data = Some [1 \<mapsto> [0x98DF]]"
  "user_vocabulary_assignments scenario_data = Some [(2, 1)]"
  "all_vocabulary_subjects scenario_data = Some [2 \<mapsto> [0x98DF, 0x3079, 0x308B]]"
  by (simp_all add: scenario_data_def)

theorem known_lists_project_or_fail_witness:
  "get_known_kanji_list scenario_data = Inr [[0x98DF]] \<and>
   get_known_vocabulary_list scenario_data = Inr [[0x98DF, 0x3079, 0x308B]] \<and>
   get_known_kanji_list inconsistent_data = Inl (KeyError_id 3) \<and>
   get_known_vocabulary_list inconsistent_data = Inl (KeyError_id 2)"
  using known_lists_project_or_fail [OF scenario_data_fields]
    known_lists_project_or_fail [OF inconsistent_data_fields]
  by simp

section \<open>Slices\<close>

lemma slice_bound_nat: "slice_bound n (int k) = min n k"
  by (simp add: slice_bound_def)

lemma slice_bound_minus_two: "slice_bound n (- 2) = n - 2"
  by (simp add: slice_bound_def)

lemma slice_first: "slice xs (Some 0) (Some (int n)) = take n xs"
proof -
  have "slice_bound (length xs) 0 = 0" by (simp add: slice_bound_def)
  then show ?thesis
    by (simp add: slice_def slice_bound_nat Let_def min_def)
qed

lemma slice_last_two: "slice xs (Some (- 2)) None = drop (length xs - 2) xs"
  by (simp add: slice_def slice_bound_minus_two Let_def)

lemma slice_but_last_two: "slice xs None (Some (- 2)) = take (length xs - 2) xs"
  by (simp add: slice_def slice_bound_minus_two Let_def numeral_2_eq_2)

section \<open>Taking the most frequent words\<close>

text \<open>
  C8. For every stored frequency list and every requested count \<open>n\<close>,
  \<open>generate_frequent_words\<close> returns the first \<open>n\<close> entries of the list when the list
  has at least \<open>n\<close> entries, and the whole list, a shorter result and not a failure,
  when the list has fewer than \<open>n\<close> entries.
\<close>

theorem generate_frequent_words_take:
  "generate_frequent_words words_list (int n) =
     (if n \<le> length words_list then take n words_list else words_list)"
  by (simp add: generate_frequent_words_def slice_first)

section \<open>The suffix\<close>

lemma suffix_suru_iff: "suffix suru w \<longleftrightarrow> drop (length w - 2) w = suru"
proof
  assume "suffix suru w"
  then obtain stem where "w = stem @ suru" by (auto simp: suffix_def)
  then show "drop (length w - 2) w = suru" by (simp add: suru_def)
next
  assume "drop (length w - 2) w = suru"
  then have "w = take (length w - 2) w @ suru" by (metis append_take_drop_id)
  then show "suffix suru w" by (metis suffixI)
qed

lemma remove_suru_eq:
  "remove_suru w = (if w \<noteq> suru \<and> suffix suru w then take (length w - 2) w else w)"
  by (simp add: remove_suru_def slice_last_two slice_but_last_two suffix_suru_iff)

lemma remove_suru_stem: "stem \<noteq> [] \<Longrightarrow> remove_suru (stem @ suru) = stem"
  by (simp add: remove_suru_eq suffix_def) (simp add: suru_def)

lemma remove_suru_examples:
  "remove_suru [0x98DF, 0x3079, 0x3059, 0x308B] = [0x98DF, 0x3079]"
  "remove_suru [0x52C9, 0x5F37, 0x3059, 0x308B] = [0x52C9, 0x5F37]"
  "remove_suru [0x3059, 0x308B] = [0x3059, 0x308B]"
  "remove_suru [0x72AC] = [0x72AC]"
  "remove_suru [0x52C9, 0x5F37] = [0x52C9, 0x5F37]"
  by (simp_all add: remove_suru_def slice_last_two slice_but_last_two suru_def)

section \<open>The loop over the entries\<close>

lemma blacklisted_entries_loop_iff:
  "blacklisted_entries_loop blacklisted entry \<longleftrightarrow> entry \<notin> set blacklisted"
  by (induction blacklisted) (auto simp: prod_eq_iff)

lemma words_loop_append:
  "words_loop blacklisted (es @ es') acc = words_loop blacklisted es' (words_loop blacklisted es acc)"
  by (induction es arbitrary: acc) (simp_all add: Let_def)

lemma words_loop_snoc:
  "words_loop blacklisted (es @ [entry]) [] =
     (let kept = words_loop blacklisted es [] in
      if entry \<in> set blacklisted then kept
      else if remove_suru (fst entry) \<in> set kept then kept
      else kept @ [remove_suru (fst entry)])"
  by (simp add: words_loop_append blacklisted_entries_loop_iff Let_def)

lemma words_loop_distinct:
  "distinct acc \<Longrightarrow> distinct (words_loop blacklisted es acc)"
  by (induction es arbitrary: acc) (simp_all add: Let_def)

lemma words_loop_first_occurrences:
  "words_loop blacklisted es [] =
     rev (remdups (rev (map (\<lambda>e. remove_suru (fst e)) (filter (\<lambda>e. e \<notin> set blacklisted) es))))"
proof (induction es rule: rev_induct)
  case Nil
  show ?case by simp
next
  case (snoc entry es)
  have "set (words_loop blacklisted es []) =
      set (map (\<lambda>e. remove_suru (fst e)) (filter (\<lambda>e. e \<notin> set blacklisted) es))"
    by (simp add: snoc.IH)
  then show ?case
    by (simp add: words_loop_snoc Let_def snoc.IH)
qed

section \<open>The example lines\<close>

lemma example_nlt_fields:
  "map nlt_fields example_nlt_lines =
     [Inr ([0x52C9, 0x5F37, 0x3059, 0x308B], [0x52D5, 0x8A5E],
           [0x3079, 0x3093, 0x304D, 0x3087, 0x3046, 0x3059, 0x308B]),
      Inr ([0x72AC], [0x540D, 0x8A5E], [0x3044, 0x306C]),
      Inr ([0x52C9, 0x5F37], [0x540D, 0x8A5E], [0x3079, 0x3093, 0x304D, 0x3087, 0x3046]),
      Inr ([0x7684], [0x540D, 0x8A5E], [0x30C6, 0x30AD])]"
  by (simp add: example_nlt_lines_def nlt_fields_def split_str_def item_def strip_def
      is_whitespace_def)

lemma example_bccwj_fields:
  "map bccwj_fields example_bccwj_lines =
     [Inr ([0x7684], [0x63A5, 0x5C3E, 0x8F9E, 0x2D, 0x540D, 0x8A5E, 0x7684], [0x30C6, 0x30AD])]"
  by (simp add: example_bccwj_lines_def bccwj_fields_def split_str_def item_def strip_def
      is_whitespace_def)

lemma example_nlt_list_of_entries:
  "nlt_list_of_entries example_nlt_lines =
     Inr [([0x52C9, 0x5F37, 0x3059, 0x308B], [0x3079, 0x3093, 0x304D, 0x3087, 0x3046, 0x3059, 0x308B]),
          ([0x72AC], [0x3044, 0x306C]),
          ([0x52C9, 0x5F37], [0x3079, 0x3093, 0x304D, 0x3087, 0x3046]),
          ([0x7684], [0x30C6, 0x30AD])]"
  using example_nlt_fields
  by (simp add: example_nlt_lines_def nlt_list_of_entries_def
      NLT_BLACKLISTED_WORD_TYPES_def BLACKLISTED_SYMBOLS_def)

lemma example_bccwj_list:
  "bccwj_list_of_blacklisted_entries example_bccwj_lines = Inr [([0x7684], [0x30C6, 0x30AD])]"
  using example_bccwj_fields
  by (simp add: example_bccwj_lines_def bccwj_list_of_blacklisted_entries_def
      BCCWJ_BLACKLISTED_WORD_TYPES_def)

lemma words_loop_extends: "prefix acc (words_loop blacklisted es acc)"
proof (induction es arbitrary: acc)
  case Nil
  show ?case by simp
next
  case (Cons entry es)
  have "prefix acc (acc @ [remove_suru (fst entry)])" by simp
  then have "prefix acc (words_loop blacklisted es (acc @ [remove_suru (fst entry)]))"
    using Cons.IH prefix_order.trans by blast
  then show ?case by (simp add: Let_def Cons.IH)
qed

lemma example_list_of_words:
  "list_of_words_of example_nlt_lines example_bccwj_lines = Inr [[0x52C9, 0x5F37], [0x72AC]]"
  by (simp add: list_of_words_of_def example_nlt_list_of_entries example_bccwj_list
      remove_suru_examples Let_def)

section \<open>Suffix normalization\<close>

text \<open>
  C2, as stated: a primary entry whose lemma is U+98DF U+3079 U+3059 U+308B is not
  stripped. The program strips it: the lemma ends in the two kana and is not the two
  kana alone.
\<close>

theorem suffix_normalization_counterexample:
  "remove_suru [0x98DF, 0x3079, 0x3059, 0x308B] \<noteq> [0x98DF, 0x3079, 0x3059, 0x308B] \<and>
   words_loop [] [([0x98DF, 0x3079, 0x3059, 0x308B], [0x305F, 0x3079, 0x3059, 0x308B])] [] =
     [[0x98DF, 0x3079]]"
  by (simp add: remove_suru_examples)

text \<open>
  C2, amended: in the suffix normalization of the reconciler, the lemma
  U+98DF U+3079 U+3059 U+308B is stripped to U+98DF U+3079, the lemma
  U+52C9 U+5F37 U+3059 U+308B is stripped to U+52C9 U+5F37, and the lemma
  U+3059 U+308B itself is left unchanged: every lemma that ends in U+3059 U+308B and is
  not equal to it loses its last two characters, and every other lemma is unchanged.
\<close>

theorem suffix_normalization:
  "remove_suru [0x98DF, 0x3079, 0x3059, 0x308B] = [0x98DF, 0x3079] \<and>
   remove_suru [0x52C9, 0x5F37, 0x3059, 0x308B] = [0x52C9, 0x5F37] \<and>
   remove_suru [0x3059, 0x308B] = [0x3059, 0x308B] \<and>
   suru = [0x3059, 0x308B] \<and>
   remove_suru word_lemma =
     (if suffix suru word_lemma \<and> word_lemma \<noteq> suru
      then take (length word_lemma - 2) word_lemma else word_lemma) \<and>
   words_loop [] [(word_lemma, word_reading)] [] = [remove_suru word_lemma]"
  using remove_suru_eq [of word_lemma]
  by (simp add: remove_suru_examples) (simp add: suru_def)

section \<open>Exclusion and deduplication\<close>

text \<open>
  C3. The exclusion test compares the (lemma, reading) pair of a primary entry as it
  is, before any stripping, with the pairs of the blacklist: an entry whose pair is
  blacklisted adds nothing. The test against the words already retained is made with
  the stripped lemma: an entry whose stripped lemma is already retained adds nothing
  (the second occurrence loses), and any other entry adds its stripped lemma at the
  end.
\<close>

theorem exclusion_before_strip_dedup_after:
  "(entry \<in> set blacklisted \<longrightarrow>
      words_loop blacklisted (es @ [entry]) [] = words_loop blacklisted es []) \<and>
   (entry \<notin> set blacklisted \<and> remove_suru (fst entry) \<in> set (words_loop blacklisted es []) \<longrightarrow>
      words_loop blacklisted (es @ [entry]) [] = words_loop blacklisted es []) \<and>
   (entry \<notin> set blacklisted \<and> remove_suru (fst entry) \<notin> set (words_loop blacklisted es []) \<longrightarrow>
      words_loop blacklisted (es @ [entry]) [] =
        words_loop blacklisted es [] @ [remove_suru (fst entry)])"
  by (simp add: words_loop_snoc Let_def)

theorem exclusion_before_strip_dedup_after_witness:
  "words_loop [([0x52C9, 0x5F37, 0x3059, 0x308B], [0x30D9])]
     ([] @ [([0x52C9, 0x5F37, 0x3059, 0x308B], [0x30D9])]) [] = [] \<and>
   words_loop [([0x52C9, 0x5F37], [0x30D9])]
     ([([0x52C9, 0x5F37], [0x3079])] @ [([0x52C9, 0x5F37, 0x3059, 0x308B], [0x30D9])]) [] =
     [[0x52C9, 0x5F37]] \<and>
   words_loop [([0x52C9, 0x5F37], [0x30D9])]
     ([] @ [([0x52C9, 0x5F37, 0x3059, 0x308B], [0x30D9])]) [] = [[0x52C9, 0x5F37]]"
  using exclusion_before_strip_dedup_after
      [of "([0x52C9, 0x5F37, 0x3059, 0x308B], [0x30D9])"
          "[([0x52C9, 0x5F37, 0x3059, 0x308B], [0x30D9])]" "[]"]
    exclusion_before_strip_dedup_after
      [of "([0x52C9, 0x5F37, 0x3059, 0x308B], [0x30D9])"
          "[([0x52C9, 0x5F37], [0x30D9])]" "[([0x52C9, 0x5F37], [0x3079])]"]
    exclusion_before_strip_dedup_after
      [of "([0x52C9, 0x5F37, 0x3059, 0x308B], [0x30D9])"
          "[([0x52C9, 0x5F37], [0x30D9])]" "[]"]
  by (simp add: remove_suru_examples Let_def)

section \<open>No duplicates\<close>

text \<open>
  C6. For every list of primary entries and every blacklist drawn from the secondary
  entries, the list of words that the reconciler produces has no duplicates: each word
  appears once, at the place of its first occurrence in the scan of the primary
  entries (the list is the list of the stripped lemmas of the entries that are not
  blacklisted, with every later occurrence of a word removed, and scanning further
  entries only adds words at its end). So the list computed from the lines of the two
  files has no duplicates.
\<close>

theorem list_of_words_distinct:
  "distinct (words_loop blacklisted list_of_entries []) \<and>
   words_loop blacklisted list_of_entries [] =
     rev (remdups (rev (map (\<lambda>e. remove_suru (fst e))
       (filter (\<lambda>e. e \<notin> set blacklisted) list_of_entries)))) \<and>
   prefix (words_loop blacklisted list_of_entries [])
     (words_loop blacklisted (list_of_entries @ more_entries) []) \<and>
   (list_of_words_of nlt_lines bccwj_lines = Inr list_of_words \<longrightarrow> distinct list_of_words)"
proof (intro conjI impI)
  show "distinct (words_loop blacklisted list_of_entries [])"
    by (simp add: words_loop_distinct)
  show "words_loop blacklisted list_of_entries [] =
      rev (remdups (rev (map (\<lambda>e. remove_suru (fst e))
        (filter (\<lambda>e. e \<notin> set blacklisted) list_of_entries))))"
    by (rule words_loop_first_occurrences)
  show "prefix (words_loop blacklisted list_of_entries [])
      (words_loop blacklisted (list_of_entries @ more_entries) [])"
    by (simp add: words_loop_append words_loop_extends)
  assume "list_of_words_of nlt_lines bccwj_lines = Inr list_of_words"
  then show "distinct list_of_words"
    by (auto simp: list_of_words_of_def words_loop_distinct split: sum.splits)
qed

theorem list_of_words_distinct_witness:
  "list_of_words_of example_nlt_lines example_bccwj_lines = Inr [[0x52C9, 0x5F37], [0x72AC]] \<and>
   distinct [[0x52C9, 0x5F37], [0x72AC :: nat]]"
  using list_of_words_distinct [of _ _ _ example_nlt_lines example_bccwj_lines
      "[[0x52C9, 0x5F37], [0x72AC]]"]
  by (simp add: example_list_of_words)

section \<open>The two scans\<close>

lemma symbols_loop_iff:
  "symbols_loop symbols word_lemma \<longleftrightarrow> (\<forall>symbol \<in> set symbols. \<not> str_contains word_lemma symbol)"
  by (induction symbols) auto

lemma parse_error_is_IndexError: "(e :: parse_error) = IndexError"
  by (cases e) simp

lemma nlt_loop_step:
  assumes "nlt_fields line = Inr e" and "word_count < cap"
  shows "nlt_loop cap (line # rest) word_count acc =
     (if nlt_survives e
      then (if word_count + 1 = cap then Inr (acc @ [lemma_reading e])
            else nlt_loop cap rest (word_count + 1) (acc @ [lemma_reading e]))
      else nlt_loop cap rest word_count acc)"
  using assms
  by (cases e) (auto simp: nlt_survives_def lemma_reading_def symbols_loop_iff)

lemma nlt_loop_malformed:
  "isl (nlt_fields line) \<Longrightarrow> nlt_loop cap (line # rest) word_count acc = Inl IndexError"
  by (cases "nlt_fields line") (simp_all add: parse_error_is_IndexError)

lemma nlt_survivors_Cons:
  "nlt_survivors (line # pre) =
     (if nlt_survives (projr (nlt_fields line))
      then lemma_reading (projr (nlt_fields line)) # nlt_survivors pre
      else nlt_survivors pre)"
  by (simp add: nlt_survivors_def)

lemma nlt_loop_scan:
  assumes "\<forall>line \<in> set pre. \<not> isl (nlt_fields line)" and "word_count < cap"
  shows "nlt_loop cap (pre @ rest) word_count acc =
     (if cap - word_count \<le> length (nlt_survivors pre)
      then Inr (acc @ take (cap - word_count) (nlt_survivors pre))
      else nlt_loop cap rest (word_count + length (nlt_survivors pre)) (acc @ nlt_survivors pre))"
  using assms
proof (induction pre arbitrary: word_count acc)
  case Nil
  then show ?case by (simp add: nlt_survivors_def)
next
  case (Cons line pre)
  from Cons.prems obtain e where e: "nlt_fields line = Inr e"
    by (cases "nlt_fields line") auto
  have wf: "\<forall>line \<in> set pre. \<not> isl (nlt_fields line)"
    using Cons.prems by simp
  have pe: "projr (nlt_fields line) = e"
    by (simp add: e)
  note step = nlt_loop_step [OF e Cons.prems(2), of "pre @ rest" acc]
  show ?case
  proof (cases "nlt_survives e")
    case False
    then show ?thesis
      using Cons.IH [OF wf Cons.prems(2), of acc]
      by (simp add: step nlt_survivors_Cons pe del: nlt_loop.simps)
  next
    case True
    show ?thesis
    proof (cases "word_count + 1 = cap")
      case True
      then have "cap - word_count = 1" by simp
      with \<open>nlt_survives e\<close> True show ?thesis
        by (simp add: step nlt_survivors_Cons pe del: nlt_loop.simps)
    next
      case False
      with Cons.prems(2) have lt: "word_count + 1 < cap" by simp
      then obtain k where k: "cap - word_count = Suc k" "cap - (word_count + 1) = k"
        by (cases "cap - word_count") auto
      show ?thesis
        using Cons.IH [OF wf lt, of "acc @ [lemma_reading e]"] \<open>nlt_survives e\<close> False k
        by (simp add: step nlt_survivors_Cons pe del: nlt_loop.simps)
    qed
  qed
qed

lemma blacklisted_types_loop_eq:
  "blacklisted_types_loop types word_type entry acc =
     (if \<exists>t \<in> set types. str_contains word_type t then acc @ [entry] else acc)"
  by (induction types) auto

lemma bccwj_matching_Cons:
  "bccwj_matching (line # ls) =
     (if bccwj_type_matches (projr (bccwj_fields line))
      then lemma_reading (projr (bccwj_fields line)) # bccwj_matching ls
      else bccwj_matching ls)"
  by (simp add: bccwj_matching_def)

lemma bccwj_loop_step:
  assumes "bccwj_fields line = Inr e"
  shows "bccwj_loop cap (line # rest) word_count acc =
     (let acc' = (if bccwj_type_matches e then acc @ [lemma_reading e] else acc)
      in if word_count + 1 = cap then Inr acc' else bccwj_loop cap rest (word_count + 1) acc')"
  using assms
  by (cases e) (simp add: blacklisted_types_loop_eq bccwj_type_matches_def lemma_reading_def Let_def)

lemma bccwj_loop_malformed:
  "isl (bccwj_fields line) \<Longrightarrow> bccwj_loop cap (line # rest) word_count acc = Inl IndexError"
  by (cases "bccwj_fields line") (simp_all add: parse_error_is_IndexError)

lemma bccwj_loop_scan:
  assumes "word_count < cap"
  shows "bccwj_loop cap ls word_count acc =
     (if \<forall>line \<in> set (take (cap - word_count) ls). \<not> isl (bccwj_fields line)
      then Inr (acc @ bccwj_matching (take (cap - word_count) ls))
      else Inl IndexError)"
  using assms
proof (induction ls arbitrary: word_count acc)
  case Nil
  then show ?case by (simp add: bccwj_matching_def)
next
  case (Cons line ls)
  obtain k where k: "cap - word_count = Suc k" "cap - (word_count + 1) = k"
    using Cons.prems by (cases "cap - word_count") auto
  show ?case
  proof (cases "bccwj_fields line")
    case (Inl err)
    then have "isl (bccwj_fields line)" by simp
    then show ?thesis
      using k by (simp add: bccwj_loop_malformed del: bccwj_loop.simps)
  next
    case (Inr e)
    have pe: "projr (bccwj_fields line) = e" "\<not> isl (bccwj_fields line)"
      by (simp_all add: Inr)
    note step = bccwj_loop_step [OF Inr, of cap ls word_count acc]
    show ?thesis
    proof (cases "word_count + 1 = cap")
      case True
      then have "k = 0" using k by simp
      then show ?thesis
        using True k
        by (simp add: step bccwj_matching_Cons pe Let_def del: bccwj_loop.simps)
          (simp add: bccwj_matching_def)
    next
      case False
      with Cons.prems have lt: "word_count + 1 < cap" by simp
      show ?thesis
        using False k Cons.IH [OF lt]
        by (simp add: step bccwj_matching_Cons pe Let_def del: bccwj_loop.simps)
    qed
  qed
qed

lemma single_line_fields:
  "nlt_fields particle_nlt_line = Inr ([0x306E], [0x52A9, 0x8A5E], [0x306E])"
  "nlt_fields symbol_nlt_line = Inr ([0x38], [0x540D, 0x8A5E], [0x306F, 0x3061])"
  "nlt_fields noun_nlt_line = Inr ([0x72AC], [0x540D, 0x8A5E], [0x3044, 0x306C])"
  "nlt_fields [] = Inl IndexError"
  "bccwj_fields suffix_bccwj_line =
     Inr ([0x7684], [0x63A5, 0x5C3E, 0x8F9E, 0x2D, 0x540D, 0x8A5E, 0x7684], [0x30C6, 0x30AD])"
  "bccwj_fields noun_bccwj_line = Inr ([0x72AC], [0x540D, 0x8A5E], [0x30A4, 0x30CC])"
  "bccwj_fields [] = Inl IndexError"
  by (simp_all add: particle_nlt_line_def symbol_nlt_line_def noun_nlt_line_def
      suffix_bccwj_line_def noun_bccwj_line_def nlt_fields_def bccwj_fields_def
      split_str_def item_def strip_def is_whitespace_def)

lemma single_line_survives:
  "\<not> nlt_survives ([0x306E], [0x52A9, 0x8A5E], [0x306E])"
  "\<not> nlt_survives ([0x38], [0x540D, 0x8A5E], [0x306F, 0x3061])"
  "nlt_survives ([0x72AC], [0x540D, 0x8A5E], [0x3044, 0x306C])"
  "bccwj_type_matches ([0x7684], [0x63A5, 0x5C3E, 0x8F9E, 0x2D, 0x540D, 0x8A5E, 0x7684], [0x30C6, 0x30AD])"
  "\<not> bccwj_type_matches ([0x72AC], [0x540D, 0x8A5E], [0x30A4, 0x30CC])"
  by (simp_all add: nlt_survives_def bccwj_type_matches_def NLT_BLACKLISTED_WORD_TYPES_def
      BLACKLISTED_SYMBOLS_def BCCWJ_BLACKLISTED_WORD_TYPES_def)

lemma many_lines_survivors:
  "nlt_survivors (particle_nlt_line # symbol_nlt_line # replicate n noun_nlt_line) =
     replicate n ([0x72AC], [0x3044, 0x306C])"
  by (simp add: nlt_survivors_def single_line_fields single_line_survives lemma_reading_def)

lemma many_lines_matching:
  "bccwj_matching (noun_bccwj_line # replicate n suffix_bccwj_line) =
     replicate n ([0x7684], [0x30C6, 0x30AD])"
  by (simp add: bccwj_matching_def single_line_fields single_line_survives lemma_reading_def)

section \<open>Where the scans stop\<close>

text \<open>
  C5. The scan of the primary corpus counts the entries that survive the type
  blacklist, the test for an empty lemma and the symbol blacklist; it stops when
  51000 of them have survived, and discarded entries add nothing to the count. On
  well-formed lines the result is the list of the first 51000 survivors; once 51000
  entries of a part of the file have survived, nothing after that part is read; as long
  as fewer have survived, the next line is read, however many lines were discarded (a
  malformed next line raises \<open>IndexError\<close>). The scan of the secondary corpus counts
  every line it examines and stops after 70000 lines, whatever number of them matched
  the type blacklist: the result is drawn from the first 70000 lines only, and each of
  them is examined (a malformed one among them raises \<open>IndexError\<close>).
\<close>

theorem scans_stop_at_caps:
  "((\<forall>line \<in> set nlt_lines. \<not> isl (nlt_fields line)) \<longrightarrow>
      nlt_list_of_entries nlt_lines = Inr (take 51000 (nlt_survivors nlt_lines))) \<and>
   ((\<forall>line \<in> set pre. \<not> isl (nlt_fields line)) \<and> 51000 \<le> length (nlt_survivors pre) \<longrightarrow>
      nlt_list_of_entries (pre @ rest) = Inr (take 51000 (nlt_survivors pre))) \<and>
   ((\<forall>line \<in> set pre. \<not> isl (nlt_fields line)) \<and> length (nlt_survivors pre) < 51000 \<and>
      isl (nlt_fields malformed) \<longrightarrow>
      nlt_list_of_entries (pre @ malformed # rest) = Inl IndexError) \<and>
   ((\<forall>line \<in> set (take 70000 bccwj_lines). \<not> isl (bccwj_fields line)) \<longrightarrow>
      bccwj_list_of_blacklisted_entries bccwj_lines =
        Inr (bccwj_matching (take 70000 bccwj_lines))) \<and>
   (i < 70000 \<and> i < length bccwj_lines \<and> isl (bccwj_fields (bccwj_lines ! i)) \<longrightarrow>
      bccwj_list_of_blacklisted_entries bccwj_lines = Inl IndexError)"
proof (intro conjI impI)
  assume "\<forall>line \<in> set nlt_lines. \<not> isl (nlt_fields line)"
  from nlt_loop_scan [OF this, of 0 51000 "[]" "[]"]
  show "nlt_list_of_entries nlt_lines = Inr (take 51000 (nlt_survivors nlt_lines))"
    by (simp add: nlt_list_of_entries_def)
next
  assume "(\<forall>line \<in> set pre. \<not> isl (nlt_fields line)) \<and> 51000 \<le> length (nlt_survivors pre)"
  then have wf: "\<forall>line \<in> set pre. \<not> isl (nlt_fields line)"
    and enough: "51000 \<le> length (nlt_survivors pre)" by simp_all
  from nlt_loop_scan [OF wf, of 0 51000 rest "[]"] enough
  show "nlt_list_of_entries (pre @ rest) = Inr (take 51000 (nlt_survivors pre))"
    by (simp add: nlt_list_of_entries_def)
next
  assume "(\<forall>line \<in> set pre. \<not> isl (nlt_fields line)) \<and> length (nlt_survivors pre) < 51000 \<and>
      isl (nlt_fields malformed)"
  then have wf: "\<forall>line \<in> set pre. \<not> isl (nlt_fields line)"
    and fewer: "length (nlt_survivors pre) < 51000"
    and bad: "isl (nlt_fields malformed)" by simp_all
  from nlt_loop_scan [OF wf, of 0 51000 "malformed # rest" "[]"] fewer
  show "nlt_list_of_entries (pre @ malformed # rest) = Inl IndexError"
    by (simp add: nlt_list_of_entries_def nlt_loop_malformed [OF bad] del: nlt_loop.simps)
next
  assume "\<forall>line \<in> set (take 70000 bccwj_lines). \<not> isl (bccwj_fields line)"
  then show "bccwj_list_of_blacklisted_entries bccwj_lines =
      Inr (bccwj_matching (take 70000 bccwj_lines))"
    by (simp add: bccwj_list_of_blacklisted_entries_def bccwj_loop_scan)
next
  assume a: "i < 70000 \<and> i < length bccwj_lines \<and> isl (bccwj_fields (bccwj_lines ! i))"
  then have "bccwj_lines ! i \<in> set (take 70000 bccwj_lines)"
    by (metis in_set_conv_nth length_take min_less_iff_conj nth_take)
  with a have "\<not> (\<forall>line \<in> set (take 70000 bccwj_lines). \<not> isl (bccwj_fields line))"
    by blast
  then show "bccwj_list_of_blacklisted_entries bccwj_lines = Inl IndexError"
    by (simp add: bccwj_list_of_blacklisted_entries_def bccwj_loop_scan)
qed

theorem scans_stop_at_caps_witness:
  "nlt_list_of_entries (particle_nlt_line # symbol_nlt_line # replicate 50999 noun_nlt_line) =
     Inr (replicate 50999 ([0x72AC], [0x3044, 0x306C])) \<and>
   nlt_list_of_entries
     ((particle_nlt_line # symbol_nlt_line # replicate 51000 noun_nlt_line) @ [[]]) =
     Inr (replicate 51000 ([0x72AC], [0x3044, 0x306C])) \<and>
   nlt_list_of_entries
     ((particle_nlt_line # symbol_nlt_line # replicate 50999 noun_nlt_line) @ [] # []) =
     Inl IndexError \<and>
   bccwj_list_of_blacklisted_entries
     ((noun_bccwj_line # replicate 69999 suffix_bccwj_line) @ [[]]) =
     Inr (replicate 69999 ([0x7684], [0x30C6, 0x30AD])) \<and>
   bccwj_list_of_blacklisted_entries
     ((noun_bccwj_line # replicate 69998 suffix_bccwj_line) @ [[]]) = Inl IndexError"
  using scans_stop_at_caps
      [of "particle_nlt_line # symbol_nlt_line # replicate 50999 noun_nlt_line"
          "particle_nlt_line # symbol_nlt_line # replicate 51000 noun_nlt_line" "[[]]"
          "[]" "(noun_bccwj_line # replicate 69999 suffix_bccwj_line) @ [[]]" 0]
    scans_stop_at_caps
      [of "[]" "particle_nlt_line # symbol_nlt_line # replicate 50999 noun_nlt_line" "[]"
          "[]" "(noun_bccwj_line # replicate 69998 suffix_bccwj_line) @ [[]]" 69999]
  by (simp add: many_lines_survivors many_lines_matching single_line_fields nth_append)

end
